theory Spec2Isabelle
  imports Main
begin

section \<open>Data model of SemanticAnalyzer.cpp\<close>

text \<open>
  \<^verbatim>\<open>enum class SymbolType\<close> and \<^verbatim>\<open>enum class TypeKind\<close>. The enumerator
  \<^verbatim>\<open>TypeKind::Int\<close> is written \<open>Int_kind\<close>, because \<open>Int\<close> is the ASCII
  spelling of set intersection in HOL.
\<close>

datatype SymbolType = Variable | Constant | Function

datatype TypeKind = Int_kind | Float | String | Bool | Auto | Unknown

text \<open>\<^verbatim>\<open>struct TypeInfo\<close>: \<open>width\<close> and the line numbers below are C++ \<^verbatim>\<open>int\<close>s
  that are only stored and compared, never computed with.\<close>

record TypeInfo =
  kind :: TypeKind
  width :: int
  is_signed :: bool
  is_mutable :: bool

record Symbol =
  name :: string
  symbol_type :: SymbolType
  type_info :: TypeInfo
  is_initialized :: bool
  declaration_line :: int

text \<open>
  The three exception classes the analyzer throws. \<open>SemanticError\<close> is the class of
  that name (a message and a line), the only one that \<^verbatim>\<open>main\<close> catches;
  \<open>runtime_error\<close> and \<open>logic_error\<close> are the plain standard-library exceptions,
  which carry a message only.
  \<open>undefined_behaviour\<close> is not an exception: it marks a run that calls
  \<^verbatim>\<open>scope_stack.back()\<close> on an empty vector, where C++ promises nothing.
\<close>

datatype error =
    SemanticError string int
  | runtime_error string
  | logic_error string
  | undefined_behaviour

text \<open>
  A scope is a \<^verbatim>\<open>std::map<std::string, Symbol>\<close>. The scope stack is the
  \<^verbatim>\<open>std::vector\<close> of scopes, kept here with the vector's \<^verbatim>\<open>back()\<close> as the head
  of the list, so that \<^verbatim>\<open>emplace_back\<close> is \<open>#\<close>, \<^verbatim>\<open>pop_back\<close> is \<open>tl\<close> and the
  reverse iteration of \<^verbatim>\<open>find_symbol\<close> walks the list from its head.
\<close>

type_synonym scope = "string \<rightharpoonup> Symbol"

record SemanticAnalyzer =
  symbol_table :: scope
  scope_stack :: "scope list"
  current_return_type :: TypeInfo
  in_function :: bool

text \<open>The outcome of a \<^verbatim>\<open>void\<close> member function: the exception thrown, if any, and
  the analyzer as the call leaves it (a throw does not undo earlier mutations).\<close>

type_synonym outcome = "(error + unit) \<times> SemanticAnalyzer"

subsection \<open>The syntax tree\<close>

text \<open>
  Modelled from the spec: the node classes (\<^verbatim>\<open>ASTNode\<close>, \<^verbatim>\<open>NodeKind\<close>,
  \<^verbatim>\<open>FunctionNode\<close>, \<^verbatim>\<open>ParameterNode\<close>, the three declaration nodes,
  \<^verbatim>\<open>ExpressionNode\<close>, \<^verbatim>\<open>IntegerLiteralNode\<close>) are declared outside the two source
  files. Their fields are the ones the analyzer and \<^verbatim>\<open>main\<close> read and write, as
  section 6 of the specification lists them: Function{name, return_type, parameters,
  body}, Let/Var/Const{name, optional type_annotation, optional initializer},
  Parameter{name, type}, each with a line.

  The analyzer never inspects an expression, so only the literal that \<^verbatim>\<open>main\<close> builds
  is named. A \<^verbatim>\<open>shared_ptr\<close> that the code tests for null is an \<open>option\<close>; the
  parameters, which \<^verbatim>\<open>visit_parameter\<close> dereferences without a test, are not. The three
  declaration classes have the same fields and share one record. The constructor of a
  node is its kind tag; \<open>OtherNode\<close> stands for a node of any kind other than
  \<^verbatim>\<open>Function\<close>, \<^verbatim>\<open>LetDeclaration\<close>, \<^verbatim>\<open>VarDeclaration\<close>, \<^verbatim>\<open>ConstDeclaration\<close>, with
  the name of its kind and its line.
\<close>

datatype ExpressionNode = IntegerLiteralNode int | OtherExpression string

record ParameterNode =
  param_name :: string
  param_type :: string
  param_line :: int

record DeclarationNode =
  decl_name :: string
  type_annotation :: "string option"
  initializer :: "ExpressionNode option"
  decl_line :: int

datatype ASTNode =
    FunctionNode string string "ParameterNode list" "ASTNode option list" int
  | LetDeclarationNode DeclarationNode
  | VarDeclarationNode DeclarationNode
  | ConstDeclarationNode DeclarationNode
  | OtherNode string int

section \<open>The analyzer\<close>

text \<open>A default-initialised \<^verbatim>\<open>TypeInfo\<close> member or local: its fields hold
  indeterminate values until they are assigned.\<close>

definition indeterminate_TypeInfo :: TypeInfo where
  "indeterminate_TypeInfo =
     \<lparr>kind = undefined, width = undefined, is_signed = undefined, is_mutable = undefined\<rparr>"

definition enter_scope :: "SemanticAnalyzer \<Rightarrow> SemanticAnalyzer" where
  "enter_scope s = s\<lparr>scope_stack := Map.empty # scope_stack s\<rparr>"

text \<open>The constructor pushes the global scope.\<close>

definition new_SemanticAnalyzer :: SemanticAnalyzer where
  "new_SemanticAnalyzer =
     enter_scope \<lparr>symbol_table = Map.empty, scope_stack = [],
                  current_return_type = indeterminate_TypeInfo, in_function = False\<rparr>"

definition exit_scope :: "SemanticAnalyzer \<Rightarrow> outcome" where
  "exit_scope s =
     (if scope_stack s = [] then (Inl (logic_error ''Scope stack underflow''), s)
      else (Inr (), s\<lparr>scope_stack := tl (scope_stack s)\<rparr>))"

text \<open>\<^verbatim>\<open>find_symbol\<close>: innermost scope first; \<open>None\<close> is the null pointer.\<close>

fun find_in_scopes :: "string \<Rightarrow> scope list \<Rightarrow> Symbol option" where
  "find_in_scopes n [] = None"
| "find_in_scopes n (sc # rest) =
     (case sc n of Some found \<Rightarrow> Some found | None \<Rightarrow> find_in_scopes n rest)"

definition find_symbol :: "string \<Rightarrow> SemanticAnalyzer \<Rightarrow> Symbol option" where
  "find_symbol n s = find_in_scopes n (scope_stack s)"

text \<open>\<^verbatim>\<open>scope_stack.back()[n] = sym\<close>, on a stack known to be non-empty.\<close>

definition declare_in_back :: "string \<Rightarrow> Symbol \<Rightarrow> SemanticAnalyzer \<Rightarrow> SemanticAnalyzer" where
  "declare_in_back n symb s =
     s\<lparr>scope_stack := ((hd (scope_stack s))(n \<mapsto> symb)) # tl (scope_stack s)\<rparr>"

definition unknown_type :: "string \<Rightarrow> error" where
  "unknown_type type_name = runtime_error (''Unknown type: '' @ type_name)"

definition parse_type :: "string \<Rightarrow> error + TypeInfo" where
  "parse_type type_name =
    (if type_name = ''i8'' then Inr \<lparr>kind = Int_kind, width = 8, is_signed = True, is_mutable = False\<rparr>
     else if type_name = ''u8'' then Inr \<lparr>kind = Int_kind, width = 8, is_signed = False, is_mutable = False\<rparr>
     else if type_name = ''i16'' then Inr \<lparr>kind = Int_kind, width = 16, is_signed = True, is_mutable = False\<rparr>
     else if type_name = ''u16'' then Inr \<lparr>kind = Int_kind, width = 16, is_signed = False, is_mutable = False\<rparr>
     else if type_name = ''i32'' then Inr \<lparr>kind = Int_kind, width = 32, is_signed = True, is_mutable = False\<rparr>
     else if type_name = ''u32'' then Inr \<lparr>kind = Int_kind, width = 32, is_signed = False, is_mutable = False\<rparr>
     else if type_name = ''i64'' then Inr \<lparr>kind = Int_kind, width = 64, is_signed = True, is_mutable = False\<rparr>
     else if type_name = ''u64'' then Inr \<lparr>kind = Int_kind, width = 64, is_signed = False, is_mutable = False\<rparr>
     else if type_name = ''i128'' then Inr \<lparr>kind = Int_kind, width = 128, is_signed = True, is_mutable = False\<rparr>
     else if type_name = ''u128'' then Inr \<lparr>kind = Int_kind, width = 128, is_signed = False, is_mutable = False\<rparr>
     else if type_name = ''f32'' then Inr \<lparr>kind = Float, width = 32, is_signed = True, is_mutable = False\<rparr>
     else if type_name = ''f64'' then Inr \<lparr>kind = Float, width = 64, is_signed = True, is_mutable = False\<rparr>
     else if type_name = ''str'' then Inr \<lparr>kind = String, width = 0, is_signed = False, is_mutable = False\<rparr>
     else if type_name = ''string'' then Inr \<lparr>kind = String, width = 0, is_signed = False, is_mutable = False\<rparr>
     else if type_name = ''bool'' then Inr \<lparr>kind = Bool, width = 0, is_signed = False, is_mutable = False\<rparr>
     else if type_name = ''auto'' then Inr \<lparr>kind = Auto, width = 0, is_signed = False, is_mutable = False\<rparr>
     else Inl (unknown_type type_name))"

definition types_compatible :: "TypeInfo \<Rightarrow> TypeInfo \<Rightarrow> bool" where
  "types_compatible expected actual =
    (if kind expected = Auto then True
     else if kind expected \<noteq> kind actual then False
     else if kind expected = Int_kind \<or> kind expected = Float
       then width expected = width actual \<and> is_signed expected = is_signed actual
     else True)"

text \<open>The stub: whatever the expression, the type returned is \<open>Unknown\<close>.\<close>

definition visit_expression :: "ExpressionNode \<Rightarrow> TypeInfo" where
  "visit_expression expr = \<lparr>kind = Unknown, width = 0, is_signed = False, is_mutable = False\<rparr>"

definition quoted :: "string \<Rightarrow> string" where
  "quoted n = [CHR 0x27] @ n @ [CHR 0x27]"

text \<open>The annotation of a declaration: \<^verbatim>\<open>parse_type\<close> when it is present, else a
  \<^verbatim>\<open>TypeInfo\<close> of which only \<open>kind\<close> has been assigned.\<close>

definition declared_type :: "string option \<Rightarrow> error + TypeInfo" where
  "declared_type ann =
     (case ann of Some t \<Rightarrow> parse_type t
      | None \<Rightarrow> Inr (indeterminate_TypeInfo\<lparr>kind := Auto\<rparr>))"

definition visit_parameter :: "ParameterNode \<Rightarrow> SemanticAnalyzer \<Rightarrow> outcome" where
  "visit_parameter param s =
    (case parse_type (param_type param) of
       Inl e \<Rightarrow> (Inl e, s)
     | Inr ti \<Rightarrow>
        (case scope_stack s of
           [] \<Rightarrow> (Inl undefined_behaviour, s)
         | cur # outer \<Rightarrow>
            if cur (param_name param) \<noteq> None
            then (Inl (SemanticError (''Duplicate parameter name '' @ quoted (param_name param))
                         (param_line param)), s)
            else (Inr (), declare_in_back (param_name param)
                    \<lparr>name = param_name param, symbol_type = Variable, type_info = ti,
                     is_initialized = True, declaration_line = param_line param\<rparr> s)))"

definition visit_let_decl :: "DeclarationNode \<Rightarrow> SemanticAnalyzer \<Rightarrow> outcome" where
  "visit_let_decl let_decl s =
    (case scope_stack s of
       [] \<Rightarrow> (Inl undefined_behaviour, s)
     | cur # outer \<Rightarrow>
        if cur (decl_name let_decl) \<noteq> None
        then (Inl (SemanticError (''Duplicate variable name '' @ quoted (decl_name let_decl))
                     (decl_line let_decl)), s)
        else
          (case declared_type (type_annotation let_decl) of
             Inl e \<Rightarrow> (Inl e, s)
           | Inr ti \<Rightarrow>
              (case initializer let_decl of
                 Some expr \<Rightarrow>
                   (let init_type = visit_expression expr in
                    if kind ti = Auto
                    then (Inr (), declare_in_back (decl_name let_decl)
                            \<lparr>name = decl_name let_decl, symbol_type = Variable,
                             type_info = init_type\<lparr>is_mutable := False\<rparr>,
                             is_initialized = True, declaration_line = decl_line let_decl\<rparr> s)
                    else if \<not> types_compatible ti init_type
                    then (Inl (SemanticError ''Type mismatch in let declaration''
                                 (decl_line let_decl)), s)
                    else (Inr (), declare_in_back (decl_name let_decl)
                            \<lparr>name = decl_name let_decl, symbol_type = Variable,
                             type_info = ti\<lparr>is_mutable := False\<rparr>,
                             is_initialized = True, declaration_line = decl_line let_decl\<rparr> s))
               | None \<Rightarrow>
                   (Inr (), declare_in_back (decl_name let_decl)
                      \<lparr>name = decl_name let_decl, symbol_type = Variable,
                       type_info = ti\<lparr>is_mutable := False\<rparr>,
                       is_initialized = False, declaration_line = decl_line let_decl\<rparr> s))))"

definition visit_var_decl :: "DeclarationNode \<Rightarrow> SemanticAnalyzer \<Rightarrow> outcome" where
  "visit_var_decl var_decl s =
    (case scope_stack s of
       [] \<Rightarrow> (Inl undefined_behaviour, s)
     | cur # outer \<Rightarrow>
        if cur (decl_name var_decl) \<noteq> None
        then (Inl (SemanticError (''Duplicate variable name '' @ quoted (decl_name var_decl))
                     (decl_line var_decl)), s)
        else
          (case declared_type (type_annotation var_decl) of
             Inl e \<Rightarrow> (Inl e, s)
           | Inr ti \<Rightarrow>
              (case initializer var_decl of
                 None \<Rightarrow> (Inl (SemanticError ''var declaration requires initializer''
                                 (decl_line var_decl)), s)
               | Some expr \<Rightarrow>
                   (let init_type = visit_expression expr in
                    if kind ti = Auto
                    then (Inr (), declare_in_back (decl_name var_decl)
                            \<lparr>name = decl_name var_decl, symbol_type = Variable,
                             type_info = init_type\<lparr>is_mutable := True\<rparr>,
                             is_initialized = True, declaration_line = decl_line var_decl\<rparr> s)
                    else if \<not> types_compatible ti init_type
                    then (Inl (SemanticError ''Type mismatch in var declaration''
                                 (decl_line var_decl)), s)
                    else (Inr (), declare_in_back (decl_name var_decl)
                            \<lparr>name = decl_name var_decl, symbol_type = Variable,
                             type_info = ti\<lparr>is_mutable := True\<rparr>,
                             is_initialized = True, declaration_line = decl_line var_decl\<rparr> s)))))"

definition visit_const_decl :: "DeclarationNode \<Rightarrow> SemanticAnalyzer \<Rightarrow> outcome" where
  "visit_const_decl const_decl s =
    (case scope_stack s of
       [] \<Rightarrow> (Inl undefined_behaviour, s)
     | cur # outer \<Rightarrow>
        if cur (decl_name const_decl) \<noteq> None
        then (Inl (SemanticError (''Duplicate constant name '' @ quoted (decl_name const_decl))
                     (decl_line const_decl)), s)
        else
          (case declared_type (type_annotation const_decl) of
             Inl e \<Rightarrow> (Inl e, s)
           | Inr ti \<Rightarrow>
              (case initializer const_decl of
                 None \<Rightarrow> (Inl (SemanticError ''const declaration requires initializer''
                                 (decl_line const_decl)), s)
               | Some expr \<Rightarrow>
                   (let init_type = visit_expression expr in
                    if kind ti = Auto
                    then (Inr (), declare_in_back (decl_name const_decl)
                            \<lparr>name = decl_name const_decl, symbol_type = Constant,
                             type_info = init_type\<lparr>is_mutable := False\<rparr>,
                             is_initialized = True, declaration_line = decl_line const_decl\<rparr> s)
                    else if \<not> types_compatible ti init_type
                    then (Inl (SemanticError ''Type mismatch in const declaration''
                                 (decl_line const_decl)), s)
                    else (Inr (), declare_in_back (decl_name const_decl)
                            \<lparr>name = decl_name const_decl, symbol_type = Constant,
                             type_info = ti\<lparr>is_mutable := False\<rparr>,
                             is_initialized = True, declaration_line = decl_line const_decl\<rparr> s)))))"

text \<open>The loop over \<^verbatim>\<open>func->parameters\<close>; the first throw ends it.\<close>

fun visit_parameters :: "ParameterNode list \<Rightarrow> SemanticAnalyzer \<Rightarrow> outcome" where
  "visit_parameters [] s = (Inr (), s)"
| "visit_parameters (param # rest) s =
     (case visit_parameter param s of
        (Inl e, s') \<Rightarrow> (Inl e, s')
      | (Inr u, s') \<Rightarrow> visit_parameters rest s')"

text \<open>
  \<^verbatim>\<open>visit\<close>, \<^verbatim>\<open>visit_function\<close> and the loop over \<^verbatim>\<open>func->body\<close>
  (\<open>visit_statements\<close>) call each other. A null node and a node of a kind without a
  \<^verbatim>\<open>case\<close> in the \<^verbatim>\<open>switch\<close> fall through to the end of \<^verbatim>\<open>visit\<close>.
\<close>

function visit :: "ASTNode option \<Rightarrow> SemanticAnalyzer \<Rightarrow> outcome"
  and visit_function ::
    "string \<Rightarrow> string \<Rightarrow> ParameterNode list \<Rightarrow> ASTNode option list \<Rightarrow> int
       \<Rightarrow> SemanticAnalyzer \<Rightarrow> outcome"
  and visit_statements :: "ASTNode option list \<Rightarrow> SemanticAnalyzer \<Rightarrow> outcome"
where
  "visit None s = (Inr (), s)"
| "visit (Some (FunctionNode fname return_type parameters body line)) s =
     visit_function fname return_type parameters body line s"
| "visit (Some (LetDeclarationNode let_decl)) s = visit_let_decl let_decl s"
| "visit (Some (VarDeclarationNode var_decl)) s = visit_var_decl var_decl s"
| "visit (Some (ConstDeclarationNode const_decl)) s = visit_const_decl const_decl s"
| "visit (Some (OtherNode k line)) s = (Inr (), s)"
| "visit_function fname return_type parameters body line s =
     (if find_symbol fname s \<noteq> None
      then (Inl (SemanticError (''Duplicate function name '' @ quoted fname) line), s)
      else
        (case parse_type return_type of
           Inl e \<Rightarrow> (Inl e, s)
         | Inr ti \<Rightarrow>
            (case scope_stack s of
               [] \<Rightarrow> (Inl undefined_behaviour, s)
             | cur # outer \<Rightarrow>
                (let s1 = declare_in_back fname
                            \<lparr>name = fname, symbol_type = Function, type_info = ti,
                             is_initialized = True, declaration_line = line\<rparr> s;
                     s2 = s1\<lparr>in_function := True\<rparr>;
                     s3 = s2\<lparr>current_return_type := ti\<rparr>;
                     s4 = enter_scope s3
                 in case visit_parameters parameters s4 of
                      (Inl e, s5) \<Rightarrow> (Inl e, s5)
                    | (Inr u, s5) \<Rightarrow>
                       (case visit_statements body s5 of
                          (Inl e, s6) \<Rightarrow> (Inl e, s6)
                        | (Inr u, s6) \<Rightarrow>
                           (case exit_scope s6 of
                              (Inl e, s7) \<Rightarrow> (Inl e, s7)
                            | (Inr u, s7) \<Rightarrow> (Inr (), s7\<lparr>in_function := False\<rparr>)))))))"
| "visit_statements [] s = (Inr (), s)"
| "visit_statements (stmt # rest) s =
     (case visit stmt s of
        (Inl e, s') \<Rightarrow> (Inl e, s')
      | (Inr u, s') \<Rightarrow> visit_statements rest s')"
  by pat_completeness auto
termination
  by (relation "measure (\<lambda>x. case x of
          Inl (node, s) \<Rightarrow> 2 * size_option size node
        | Inr (Inl (fname, return_type, parameters, body, line, s)) \<Rightarrow>
            2 * size_list (size_option size) body + 1
        | Inr (Inr (body, s)) \<Rightarrow> 2 * size_list (size_option size) body)")
    auto

definition analyze :: "ASTNode option \<Rightarrow> SemanticAnalyzer \<Rightarrow> outcome" where
  "analyze root s = visit root s"


section \<open>Notions used in the statements\<close>

text \<open>The sixteen spellings of the catalog, as section 4.2 of the specification
  lists them.\<close>

definition type_catalog :: "string list" where
  "type_catalog =
     [''i8'', ''u8'', ''i16'', ''u16'', ''i32'', ''u32'', ''i64'', ''u64'',
      ''i128'', ''u128'', ''f32'', ''f64'', ''str'', ''string'', ''bool'', ''auto'']"

text \<open>The analyzer as \<^verbatim>\<open>visit_function\<close> has it when the loops over the parameters
  and the body start: the function declared in the scope that was current, the two
  function fields set, and the scope of the body pushed.\<close>

definition function_entry ::
  "string \<Rightarrow> TypeInfo \<Rightarrow> int \<Rightarrow> SemanticAnalyzer \<Rightarrow> SemanticAnalyzer" where
  "function_entry fname ti line s =
     enter_scope
       ((declare_in_back fname
          \<lparr>name = fname, symbol_type = Function, type_info = ti,
           is_initialized = True, declaration_line = line\<rparr> s)
        \<lparr>in_function := True, current_return_type := ti\<rparr>)"

text \<open>The depth of the scope stack after a call, against the depth before it: the same
  after a normal return, and never smaller.\<close>

definition balanced :: "SemanticAnalyzer \<Rightarrow> outcome \<Rightarrow> bool" where
  "balanced s out =
     ((fst out = Inr () \<longrightarrow> length (scope_stack (snd out)) = length (scope_stack s))
      \<and> length (scope_stack s) \<le> length (scope_stack (snd out)))"

subsection \<open>Programs and states used as examples\<close>

text \<open>The tree that \<^verbatim>\<open>main\<close> builds for
  \<^verbatim>\<open>fn main() -> void { let a: i32 = 42; }\<close>.\<close>

definition main_program :: ASTNode where
  "main_program =
     FunctionNode ''main'' ''void'' []
       [Some (LetDeclarationNode
          \<lparr>decl_name = ''a'', type_annotation = Some ''i32'',
           initializer = Some (IntegerLiteralNode 42), decl_line = 2\<rparr>)] 1"

text \<open>The same program with a return type of the catalog:
  \<^verbatim>\<open>fn main() -> i32 { let a: i32 = 42; }\<close>.\<close>

definition typed_let_program :: ASTNode where
  "typed_let_program =
     FunctionNode ''main'' ''i32'' []
       [Some (LetDeclarationNode
          \<lparr>decl_name = ''a'', type_annotation = Some ''i32'',
           initializer = Some (IntegerLiteralNode 42), decl_line = 2\<rparr>)] 1"

text \<open>\<^verbatim>\<open>fn f() -> i32 { const z: bool; }\<close> and \<^verbatim>\<open>fn f() -> i32 { let x: i32; }\<close>.\<close>

definition const_without_initializer_program :: ASTNode where
  "const_without_initializer_program =
     FunctionNode ''f'' ''i32'' []
       [Some (ConstDeclarationNode
          \<lparr>decl_name = ''z'', type_annotation = Some ''bool'',
           initializer = None, decl_line = 2\<rparr>)] 1"

definition let_without_initializer_program :: ASTNode where
  "let_without_initializer_program =
     FunctionNode ''f'' ''i32'' []
       [Some (LetDeclarationNode
          \<lparr>decl_name = ''x'', type_annotation = Some ''i32'',
           initializer = None, decl_line = 2\<rparr>)] 1"

text \<open>\<^verbatim>\<open>fn f() -> i32 { let x: i32; fn g() -> i32 { let x: i32 = 2; } }\<close>: the second
  \<open>x\<close>, at line 4, is declared in the scope of \<open>g\<close>, inside the scope of \<open>f\<close> that
  holds the first, of line 2.\<close>

definition nested_let_program :: ASTNode where
  "nested_let_program =
     FunctionNode ''f'' ''i32'' []
       [Some (LetDeclarationNode
          \<lparr>decl_name = ''x'', type_annotation = Some ''i32'',
           initializer = None, decl_line = 2\<rparr>),
        Some (FunctionNode ''g'' ''i32'' []
          [Some (LetDeclarationNode
             \<lparr>decl_name = ''x'', type_annotation = Some ''i32'',
              initializer = Some (IntegerLiteralNode 2), decl_line = 4\<rparr>)] 3)] 1"

text \<open>\<^verbatim>\<open>fn f() -> i32 { let x: i32 = 1; let x: i32 = 2; }\<close>: both \<open>x\<close>, of lines 2
  and 3, are declared in the scope of \<open>f\<close>.\<close>

definition same_scope_let_program :: ASTNode where
  "same_scope_let_program =
     FunctionNode ''f'' ''i32'' []
       [Some (LetDeclarationNode
          \<lparr>decl_name = ''x'', type_annotation = Some ''i32'',
           initializer = Some (IntegerLiteralNode 1), decl_line = 2\<rparr>),
        Some (LetDeclarationNode
          \<lparr>decl_name = ''x'', type_annotation = Some ''i32'',
           initializer = Some (IntegerLiteralNode 2), decl_line = 3\<rparr>)] 1"

text \<open>\<^verbatim>\<open>fn f() -> i32 { var f: i32 = 1; }\<close>: a variable named like the enclosing
  function, which is bound in the global scope only.\<close>

definition var_named_like_function_program :: ASTNode where
  "var_named_like_function_program =
     FunctionNode ''f'' ''i32'' []
       [Some (VarDeclarationNode
          \<lparr>decl_name = ''f'', type_annotation = Some ''i32'',
           initializer = Some (IntegerLiteralNode 1), decl_line = 2\<rparr>)] 1"

text \<open>\<^verbatim>\<open>let x: float = 1;\<close> at line 4, as the root of the tree.\<close>

definition unknown_annotation_program :: ASTNode where
  "unknown_annotation_program =
     LetDeclarationNode
       \<lparr>decl_name = ''x'', type_annotation = Some ''float'',
        initializer = Some (IntegerLiteralNode 1), decl_line = 4\<rparr>"

section \<open>Lemmas\<close>

declare visit_function.simps [simp del]

subsection \<open>The type catalog\<close>

lemma parse_type_outside_catalog:
  "t \<notin> set type_catalog \<Longrightarrow> parse_type t = Inl (unknown_type t)"
  by (simp add: type_catalog_def parse_type_def)

lemma parse_type_inside_catalog:
  "t \<in> set type_catalog \<Longrightarrow> \<exists>ti. parse_type t = Inr ti"
  by (auto simp add: type_catalog_def parse_type_def)

subsection \<open>The function handler, step by step\<close>

lemma visit_function_rejected:
  "find_symbol fname s \<noteq> None \<Longrightarrow>
     visit_function fname rt ps body line s =
       (Inl (SemanticError (''Duplicate function name '' @ quoted fname) line), s)"
  "find_symbol fname s = None \<Longrightarrow> parse_type rt = Inl e \<Longrightarrow>
     visit_function fname rt ps body line s = (Inl e, s)"
  "find_symbol fname s = None \<Longrightarrow> parse_type rt = Inr ti \<Longrightarrow> scope_stack s = [] \<Longrightarrow>
     visit_function fname rt ps body line s = (Inl undefined_behaviour, s)"
  by (simp_all add: visit_function.simps)

lemma visit_function_entered:
  assumes "find_symbol fname s = None" "parse_type rt = Inr ti" "scope_stack s \<noteq> []"
  shows "visit_function fname rt ps body line s =
     (case visit_parameters ps (function_entry fname ti line s) of
        (Inl e, s5) \<Rightarrow> (Inl e, s5)
      | (Inr u, s5) \<Rightarrow>
         (case visit_statements body s5 of
            (Inl e, s6) \<Rightarrow> (Inl e, s6)
          | (Inr u, s6) \<Rightarrow>
             (case exit_scope s6 of
                (Inl e, s7) \<Rightarrow> (Inl e, s7)
              | (Inr u, s7) \<Rightarrow> (Inr (), s7\<lparr>in_function := False\<rparr>))))"
  using assms
  by (cases "scope_stack s") (simp_all add: visit_function.simps function_entry_def Let_def)

lemma depth_function_entry:
  "scope_stack s \<noteq> [] \<Longrightarrow> length (scope_stack (function_entry fname ti line s)) = Suc (length (scope_stack s))"
  by (cases "scope_stack s") (simp_all add: function_entry_def enter_scope_def declare_in_back_def)

subsection \<open>Depth of the scope stack\<close>

lemma depth_visit_parameter:
  "visit_parameter p s = (r, s') \<Longrightarrow> length (scope_stack s') = length (scope_stack s)"
  by (auto simp add: visit_parameter_def declare_in_back_def split: sum.splits list.splits if_splits)

lemma depth_visit_parameters:
  "visit_parameters ps s = (r, s') \<Longrightarrow> length (scope_stack s') = length (scope_stack s)"
proof (induction ps arbitrary: s)
  case Nil
  then show ?case by simp
next
  case (Cons p ps)
  obtain r1 s1 where p: "visit_parameter p s = (r1, s1)" by (cases "visit_parameter p s")
  with Cons show ?case
    by (cases r1) (auto dest: depth_visit_parameter)
qed

lemma depth_visit_let_decl:
  "visit_let_decl d s = (r, s') \<Longrightarrow> length (scope_stack s') = length (scope_stack s)"
  by (auto simp add: visit_let_decl_def declare_in_back_def Let_def
      split: sum.splits list.splits if_splits option.splits)

lemma depth_visit_var_decl:
  "visit_var_decl d s = (r, s') \<Longrightarrow> length (scope_stack s') = length (scope_stack s)"
  by (auto simp add: visit_var_decl_def declare_in_back_def Let_def
      split: sum.splits list.splits if_splits option.splits)

lemma depth_visit_const_decl:
  "visit_const_decl d s = (r, s') \<Longrightarrow> length (scope_stack s') = length (scope_stack s)"
  by (auto simp add: visit_const_decl_def declare_in_back_def Let_def
      split: sum.splits list.splits if_splits option.splits)

lemma function_body_hyp:
  assumes IH: "\<And>b x21 x22 x xa xb xc xd y ba.
          \<lbrakk>\<not> find_symbol fname s \<noteq> None; parse_type rt = Inr b;
           scope_stack s = x21 # x22;
           x = declare_in_back fname
            \<lparr>name = fname, symbol_type = Function, type_info = b,
               is_initialized = True, declaration_line = line\<rparr> s;
           xa = x\<lparr>in_function := True\<rparr>; xb = xa\<lparr>current_return_type := b\<rparr>;
           xc = enter_scope xb; (xd, y) = visit_parameters ps xc;
           xd = Inr ba\<rbrakk>
          \<Longrightarrow> R body y"
    and "find_symbol fname s = None" "parse_type rt = Inr ti" "scope_stack s \<noteq> []"
    and "visit_parameters ps (function_entry fname ti line s) = (Inr u, s5)"
  shows "R body s5"
proof -
  obtain cur outer where st: "scope_stack s = cur # outer"
    using assms(4) by (cases "scope_stack s") auto
  show ?thesis
    by (rule IH [OF _ assms(3) st refl refl refl refl _ refl, where y = s5 and ba = u])
       (simp_all add: assms(2) assms(5) [unfolded function_entry_def, simplified])
qed

lemma depth_visit_all:
  "balanced s (visit node s)"
  "balanced s (visit_function fname rt ps body line s)"
  "balanced s (visit_statements stmts s)"
proof (induction node s and fname rt ps body line s and stmts s
    rule: visit_visit_function_visit_statements.induct)
  case (1 s)
  then show ?case by (simp add: balanced_def)
next
  case (2 fname return_type parameters body line s)
  then show ?case by simp
next
  case (3 let_decl s)
  then show ?case by (cases "visit_let_decl let_decl s") (auto simp: balanced_def dest: depth_visit_let_decl)
next
  case (4 var_decl s)
  then show ?case by (cases "visit_var_decl var_decl s") (auto simp: balanced_def dest: depth_visit_var_decl)
next
  case (5 const_decl s)
  then show ?case by (cases "visit_const_decl const_decl s") (auto simp: balanced_def dest: depth_visit_const_decl)
next
  case (6 k line s)
  then show ?case by (simp add: balanced_def)
next
  case (7 fname rt ps body line s)
  show ?case
  proof (cases "find_symbol fname s = None \<and> (\<exists>ti. parse_type rt = Inr ti) \<and> scope_stack s \<noteq> []")
    case False
    then show ?thesis
      by (cases "find_symbol fname s = None"; cases "parse_type rt")
         (auto simp add: balanced_def visit_function_rejected)
  next
    case True
    then obtain ti where free: "find_symbol fname s = None" and ty: "parse_type rt = Inr ti"
      and ne: "scope_stack s \<noteq> []" by blast
    obtain r5 s5 where ps: "visit_parameters ps (function_entry fname ti line s) = (r5, s5)"
      by (cases "visit_parameters ps (function_entry fname ti line s)")
    have d5: "length (scope_stack s5) = Suc (length (scope_stack s))"
      using depth_visit_parameters [OF ps] depth_function_entry [OF ne] by simp
    show ?thesis
    proof (cases r5)
      case (Inl e)
      with ps d5 show ?thesis
        by (simp add: visit_function_entered [OF free ty ne] balanced_def)
    next
      case (Inr u)
      have b6: "balanced s5 (visit_statements body s5)"
        using function_body_hyp [where R = "\<lambda>body y. balanced y (visit_statements body y)", OF 7 free ty ne ps [unfolded Inr]] .
      obtain r6 s6 where st: "visit_statements body s5 = (r6, s6)"
        by (cases "visit_statements body s5")
      show ?thesis
      proof (cases r6)
        case (Inl e)
        with ps Inr st b6 d5 show ?thesis
          by (simp add: visit_function_entered [OF free ty ne] balanced_def)
      next
        case r6: (Inr u6)
        with st b6 d5 have d6: "length (scope_stack s6) = Suc (length (scope_stack s))"
          by (simp add: balanced_def)
        then have ne6: "scope_stack s6 \<noteq> []" by auto
        with ps Inr st r6 d6 show ?thesis
          by (simp add: visit_function_entered [OF free ty ne] balanced_def exit_scope_def)
      qed
    qed
  qed
next
  case (8 s)
  then show ?case by (simp add: balanced_def)
next
  case (9 stmt rest s)
  show ?case
  proof (cases "visit stmt s")
    case (Pair r1 s1)
    show ?thesis
    proof (cases r1)
      case (Inl e)
      with Pair 9(1) show ?thesis by (simp add: balanced_def)
    next
      case (Inr u)
      with Pair 9(1) 9(2)[OF Pair[symmetric] Inr] show ?thesis by (auto simp add: balanced_def)
    qed
  qed
qed


subsection \<open>Declarations\<close>

lemma declared_type_ok:
  "ann = None \<or> (\<exists>t. ann = Some t \<and> t \<in> set type_catalog) \<Longrightarrow> \<exists>ti. declared_type ann = Inr ti"
  by (auto simp add: declared_type_def dest: parse_type_inside_catalog)

lemma declared_type_unknown:
  "ann = Some t \<Longrightarrow> t \<notin> set type_catalog \<Longrightarrow> declared_type ann = Inl (unknown_type t)"
  by (simp add: declared_type_def parse_type_outside_catalog)

lemma no_initializer_var:
  "scope_stack s = cur # outer \<Longrightarrow> cur (decl_name d) = None \<Longrightarrow> initializer d = None \<Longrightarrow>
   declared_type (type_annotation d) = Inr ti \<Longrightarrow>
   visit_var_decl d s = (Inl (SemanticError ''var declaration requires initializer'' (decl_line d)), s)"
  by (simp add: visit_var_decl_def)

lemma no_initializer_const:
  "scope_stack s = cur # outer \<Longrightarrow> cur (decl_name d) = None \<Longrightarrow> initializer d = None \<Longrightarrow>
   declared_type (type_annotation d) = Inr ti \<Longrightarrow>
   visit_const_decl d s = (Inl (SemanticError ''const declaration requires initializer'' (decl_line d)), s)"
  by (simp add: visit_const_decl_def)

lemma no_initializer_let:
  "scope_stack s = cur # outer \<Longrightarrow> cur (decl_name d) = None \<Longrightarrow> initializer d = None \<Longrightarrow>
   declared_type (type_annotation d) = Inr ti \<Longrightarrow>
   visit_let_decl d s =
     (Inr (), s\<lparr>scope_stack := (cur(decl_name d \<mapsto>
        \<lparr>name = decl_name d, symbol_type = Variable, type_info = ti\<lparr>is_mutable := False\<rparr>,
         is_initialized = False, declaration_line = decl_line d\<rparr>)) # outer\<rparr>)"
  by (simp add: visit_let_decl_def declare_in_back_def)

lemma unknown_annotation:
  "scope_stack s = cur # outer \<Longrightarrow> cur (decl_name d) = None \<Longrightarrow>
   declared_type (type_annotation d) = Inl e \<Longrightarrow>
   visit_let_decl d s = (Inl e, s) \<and> visit_var_decl d s = (Inl e, s) \<and> visit_const_decl d s = (Inl e, s)"
  by (simp add: visit_let_decl_def visit_var_decl_def visit_const_decl_def)

section \<open>The type catalog\<close>

text \<open>
  Claim C5. \<^verbatim>\<open>parse_type\<close> succeeds on exactly the sixteen spellings of the catalog,
  with the kind, width and signedness that the spelling names (signed and unsigned
  integers of 8 to 128 bits, signed floats of 32 and 64 bits, \<open>str\<close> and \<open>string\<close>
  as String, \<open>bool\<close> as Bool, \<open>auto\<close> as Auto), and throws the unknown-type error,
  whose message names the spelling, on every other one.
\<close>

theorem parse_type_catalog:
  "map parse_type type_catalog =
     [Inr \<lparr>kind = Int_kind, width = 8, is_signed = True, is_mutable = False\<rparr>,
      Inr \<lparr>kind = Int_kind, width = 8, is_signed = False, is_mutable = False\<rparr>,
      Inr \<lparr>kind = Int_kind, width = 16, is_signed = True, is_mutable = False\<rparr>,
      Inr \<lparr>kind = Int_kind, width = 16, is_signed = False, is_mutable = False\<rparr>,
      Inr \<lparr>kind = Int_kind, width = 32, is_signed = True, is_mutable = False\<rparr>,
      Inr \<lparr>kind = Int_kind, width = 32, is_signed = False, is_mutable = False\<rparr>,
      Inr \<lparr>kind = Int_kind, width = 64, is_signed = True, is_mutable = False\<rparr>,
      Inr \<lparr>kind = Int_kind, width = 64, is_signed = False, is_mutable = False\<rparr>,
      Inr \<lparr>kind = Int_kind, width = 128, is_signed = True, is_mutable = False\<rparr>,
      Inr \<lparr>kind = Int_kind, width = 128, is_signed = False, is_mutable = False\<rparr>,
      Inr \<lparr>kind = Float, width = 32, is_signed = True, is_mutable = False\<rparr>,
      Inr \<lparr>kind = Float, width = 64, is_signed = True, is_mutable = False\<rparr>,
      Inr \<lparr>kind = String, width = 0, is_signed = False, is_mutable = False\<rparr>,
      Inr \<lparr>kind = String, width = 0, is_signed = False, is_mutable = False\<rparr>,
      Inr \<lparr>kind = Bool, width = 0, is_signed = False, is_mutable = False\<rparr>,
      Inr \<lparr>kind = Auto, width = 0, is_signed = False, is_mutable = False\<rparr>]
   \<and> (\<forall>t. t \<notin> set type_catalog \<longrightarrow>
          parse_type t = Inl (runtime_error (''Unknown type: '' @ t)))"
proof
  show "map parse_type type_catalog =
     [Inr \<lparr>kind = Int_kind, width = 8, is_signed = True, is_mutable = False\<rparr>,
      Inr \<lparr>kind = Int_kind, width = 8, is_signed = False, is_mutable = False\<rparr>,
      Inr \<lparr>kind = Int_kind, width = 16, is_signed = True, is_mutable = False\<rparr>,
      Inr \<lparr>kind = Int_kind, width = 16, is_signed = False, is_mutable = False\<rparr>,
      Inr \<lparr>kind = Int_kind, width = 32, is_signed = True, is_mutable = False\<rparr>,
      Inr \<lparr>kind = Int_kind, width = 32, is_signed = False, is_mutable = False\<rparr>,
      Inr \<lparr>kind = Int_kind, width = 64, is_signed = True, is_mutable = False\<rparr>,
      Inr \<lparr>kind = Int_kind, width = 64, is_signed = False, is_mutable = False\<rparr>,
      Inr \<lparr>kind = Int_kind, width = 128, is_signed = True, is_mutable = False\<rparr>,
      Inr \<lparr>kind = Int_kind, width = 128, is_signed = False, is_mutable = False\<rparr>,
      Inr \<lparr>kind = Float, width = 32, is_signed = True, is_mutable = False\<rparr>,
      Inr \<lparr>kind = Float, width = 64, is_signed = True, is_mutable = False\<rparr>,
      Inr \<lparr>kind = String, width = 0, is_signed = False, is_mutable = False\<rparr>,
      Inr \<lparr>kind = String, width = 0, is_signed = False, is_mutable = False\<rparr>,
      Inr \<lparr>kind = Bool, width = 0, is_signed = False, is_mutable = False\<rparr>,
      Inr \<lparr>kind = Auto, width = 0, is_signed = False, is_mutable = False\<rparr>]"
    by (simp add: type_catalog_def parse_type_def)
  show "\<forall>t. t \<notin> set type_catalog \<longrightarrow>
          parse_type t = Inl (runtime_error (''Unknown type: '' @ t))"
    using parse_type_outside_catalog by (simp add: unknown_type_def)
qed

text \<open>The three spellings that the specification names as unknown: \<open>i7\<close>, \<open>float\<close>
  and \<open>void\<close>.\<close>

theorem parse_type_catalog_witness:
  "''i7'' \<notin> set type_catalog \<and> ''float'' \<notin> set type_catalog \<and> ''void'' \<notin> set type_catalog
   \<and> parse_type ''i7'' = Inl (runtime_error ''Unknown type: i7'')
   \<and> parse_type ''float'' = Inl (runtime_error ''Unknown type: float'')
   \<and> parse_type ''void'' = Inl (runtime_error ''Unknown type: void'')"
proof -
  have out: "''i7'' \<notin> set type_catalog" "''float'' \<notin> set type_catalog"
    "''void'' \<notin> set type_catalog"
    by (simp_all add: type_catalog_def)
  from parse_type_catalog have
    rule: "\<And>t. t \<notin> set type_catalog \<Longrightarrow> parse_type t = Inl (runtime_error (''Unknown type: '' @ t))"
    by blast
  from out rule [OF out(1)] rule [OF out(2)] rule [OF out(3)] show ?thesis by simp
qed

section \<open>Null nodes and nodes of other kinds\<close>

text \<open>
  Claim C9. \<^verbatim>\<open>analyze\<close> of a null root returns at once, with no error and the analyzer
  unchanged; so does \<^verbatim>\<open>visit\<close> of a null node, and a null statement in a function
  body leaves the loop over the body to go on with the next statement from the same
  state.
\<close>

theorem null_node_is_skipped:
  "analyze None s = (Inr (), s) \<and> visit None s = (Inr (), s)
   \<and> visit_statements (None # rest) s = visit_statements rest s"
  by (simp add: analyze_def)

text \<open>
  Claim C4, as the code has it. A node whose kind has no \<^verbatim>\<open>case\<close> in the
  \<^verbatim>\<open>switch\<close> of \<^verbatim>\<open>visit\<close> is skipped: the visit returns normally and the analyzer
  is unchanged. No error is raised for it.
\<close>

theorem other_kind_is_skipped:
  "visit (Some (OtherNode k line)) s = (Inr (), s)"
  by simp

text \<open>A return statement at line 3, for one, is visited without any error.\<close>

theorem return_statement_not_rejected:
  "visit (Some (OtherNode ''Return'' 3)) new_SemanticAnalyzer = (Inr (), new_SemanticAnalyzer)"
  by simp

section \<open>The program of main.cpp\<close>

text \<open>
  Claim C1. On the tree built by \<^verbatim>\<open>main\<close> the analysis does not succeed:
  \<^verbatim>\<open>visit_function\<close> calls \<^verbatim>\<open>parse_type\<close> on the return type \<open>void\<close>, which is not
  in the catalog, and the \<^verbatim>\<open>std::runtime_error\<close> leaves \<^verbatim>\<open>analyze\<close> before anything
  is declared.
\<close>

theorem main_program_unknown_type:
  "analyze (Some main_program) new_SemanticAnalyzer =
     (Inl (runtime_error ''Unknown type: void''), new_SemanticAnalyzer)"
  by (simp add: analyze_def main_program_def new_SemanticAnalyzer_def enter_scope_def
      find_symbol_def parse_type_def unknown_type_def visit_function.simps)

text \<open>
  Claim C2. A program without redeclaration and with a literal initializer of the
  annotated type is rejected: \<^verbatim>\<open>visit_expression\<close> answers \<open>Unknown\<close> for every
  expression, and \<^verbatim>\<open>types_compatible\<close> refuses \<open>Unknown\<close> against \<open>i32\<close>.
\<close>

theorem typed_let_program_type_mismatch:
  "fst (analyze (Some typed_let_program) new_SemanticAnalyzer) =
     Inl (SemanticError ''Type mismatch in let declaration'' 2)"
  by (simp add: analyze_def typed_let_program_def new_SemanticAnalyzer_def enter_scope_def
      find_symbol_def parse_type_def declare_in_back_def visit_let_decl_def
      declared_type_def visit_expression_def types_compatible_def visit_function.simps)

section \<open>Balance of the scope stack\<close>

lemma function_failure_keeps_scope:
  assumes free: "find_symbol fname s = None" and ty: "parse_type rt = Inr ti"
    and ne: "scope_stack s \<noteq> []"
    and fails: "fst (visit_function fname rt ps body line s) = Inl e"
  shows "length (scope_stack s) < length (scope_stack (snd (visit_function fname rt ps body line s)))"
proof -
  obtain r5 s5 where ps: "visit_parameters ps (function_entry fname ti line s) = (r5, s5)"
    by (cases "visit_parameters ps (function_entry fname ti line s)")
  have d5: "length (scope_stack s5) = Suc (length (scope_stack s))"
    using depth_visit_parameters [OF ps] depth_function_entry [OF ne] by simp
  show ?thesis
  proof (cases r5)
    case (Inl e5)
    with ps d5 show ?thesis by (simp add: visit_function_entered [OF free ty ne])
  next
    case (Inr u)
    obtain r6 s6 where st: "visit_statements body s5 = (r6, s6)"
      by (cases "visit_statements body s5")
    from depth_visit_all(3) [of s5 body] st
    have b6: "(r6 = Inr () \<longrightarrow> length (scope_stack s6) = length (scope_stack s5))
        \<and> length (scope_stack s5) \<le> length (scope_stack s6)"
      by (simp add: balanced_def)
    show ?thesis
    proof (cases r6)
      case (Inl e6)
      with ps Inr st b6 d5 show ?thesis by (simp add: visit_function_entered [OF free ty ne])
    next
      case r6: (Inr u6)
      with b6 d5 have "scope_stack s6 \<noteq> []" by auto
      with ps Inr st r6 fails show ?thesis
        by (simp add: visit_function_entered [OF free ty ne] exit_scope_def)
    qed
  qed
qed

text \<open>
  Claim C3, as the code has it. When \<^verbatim>\<open>analyze\<close> returns normally, the scope stack is
  as deep as before the call. When it throws, the stack is never less deep than before,
  and no scope is popped on the way out: if the root is a function whose name is free
  and whose return type is in the catalog, so that the failure comes from a parameter
  or from a statement of the body, the scope pushed for the body is still on the stack
  and the stack is deeper than before.
\<close>

theorem scope_depth_after_analyze:
  "(fst (analyze root s) = Inr () \<longrightarrow>
      length (scope_stack (snd (analyze root s))) = length (scope_stack s))
   \<and> length (scope_stack s) \<le> length (scope_stack (snd (analyze root s)))
   \<and> (\<forall>fname rt ps body line ti e.
        root = Some (FunctionNode fname rt ps body line) \<and> find_symbol fname s = None
        \<and> parse_type rt = Inr ti \<and> scope_stack s \<noteq> [] \<and> fst (analyze root s) = Inl e
        \<longrightarrow> length (scope_stack s) < length (scope_stack (snd (analyze root s))))"
proof -
  have "balanced s (analyze root s)"
    by (simp add: analyze_def depth_visit_all(1))
  moreover have "length (scope_stack s) < length (scope_stack (snd (analyze root s)))"
    if "root = Some (FunctionNode fname rt ps body line)" "find_symbol fname s = None"
      "parse_type rt = Inr ti" "scope_stack s \<noteq> []" "fst (analyze root s) = Inl e"
    for fname rt ps body line ti e
    using that function_failure_keeps_scope [of fname s rt ti ps body line e]
    by (simp add: analyze_def)
  ultimately show ?thesis
    unfolding balanced_def by blast
qed

text \<open>\<^verbatim>\<open>fn f() -> i32 { let x: i32; }\<close> is accepted and leaves the stack one scope
  deep; \<^verbatim>\<open>fn f() -> i32 { const z: bool; }\<close> is rejected and leaves it deeper.\<close>

theorem scope_depth_after_analyze_witness:
  "fst (analyze (Some let_without_initializer_program) new_SemanticAnalyzer) = Inr ()
   \<and> length (scope_stack (snd (analyze (Some let_without_initializer_program) new_SemanticAnalyzer)))
       = length (scope_stack new_SemanticAnalyzer)
   \<and> length (scope_stack new_SemanticAnalyzer)
       < length (scope_stack (snd (analyze (Some const_without_initializer_program)
                                     new_SemanticAnalyzer)))"
proof -
  have ok: "fst (analyze (Some let_without_initializer_program) new_SemanticAnalyzer) = Inr ()"
    by (simp add: analyze_def let_without_initializer_program_def new_SemanticAnalyzer_def
        enter_scope_def exit_scope_def find_symbol_def parse_type_def declare_in_back_def
        visit_let_decl_def declared_type_def visit_function.simps)
  have bad: "fst (analyze (Some const_without_initializer_program) new_SemanticAnalyzer) =
      Inl (SemanticError ''const declaration requires initializer'' 2)"
    by (simp add: analyze_def const_without_initializer_program_def new_SemanticAnalyzer_def
        enter_scope_def find_symbol_def parse_type_def declare_in_back_def
        visit_const_decl_def declared_type_def visit_function.simps)
  have free: "find_symbol ''f'' new_SemanticAnalyzer = None"
    and ty: "parse_type ''i32'' =
      Inr \<lparr>kind = Int_kind, width = 32, is_signed = True, is_mutable = False\<rparr>"
    and ne: "scope_stack new_SemanticAnalyzer \<noteq> []"
    by (simp_all add: find_symbol_def new_SemanticAnalyzer_def enter_scope_def parse_type_def)
  from scope_depth_after_analyze [of "Some let_without_initializer_program" new_SemanticAnalyzer] ok
  have "length (scope_stack (snd (analyze (Some let_without_initializer_program)
      new_SemanticAnalyzer))) = length (scope_stack new_SemanticAnalyzer)"
    by blast
  moreover
  from scope_depth_after_analyze [of "Some const_without_initializer_program" new_SemanticAnalyzer]
    bad free ty ne
  have "length (scope_stack new_SemanticAnalyzer)
      < length (scope_stack (snd (analyze (Some const_without_initializer_program)
          new_SemanticAnalyzer)))"
    unfolding const_without_initializer_program_def by blast
  ultimately show ?thesis using ok by simp
qed

text \<open>The scope pushed for the body of \<open>f\<close> stays on the stack when the declaration
  in the body is rejected: one scope before the call, two after it.\<close>

theorem failed_body_leaves_scope:
  "fst (analyze (Some const_without_initializer_program) new_SemanticAnalyzer) =
     Inl (SemanticError ''const declaration requires initializer'' 2)
   \<and> length (scope_stack new_SemanticAnalyzer) = 1
   \<and> length (scope_stack (snd (analyze (Some const_without_initializer_program)
                                 new_SemanticAnalyzer))) = 2"
  by (simp add: analyze_def const_without_initializer_program_def new_SemanticAnalyzer_def
      enter_scope_def find_symbol_def parse_type_def declare_in_back_def
      visit_const_decl_def declared_type_def visit_function.simps)

section \<open>The error channel\<close>

text \<open>
  Claim C8. The error of a failed analysis should carry a message and the line of the
  offending construct, also when it reports an unknown type spelling. On
  \<^verbatim>\<open>let x: float = 1;\<close> at line 4 it does not: \<^verbatim>\<open>parse_type\<close> throws a plain
  \<^verbatim>\<open>std::runtime_error\<close>, which has a message and no line, where the checks next to
  it in the same handler throw a \<open>SemanticError\<close> with the line of the declaration.
  The error that leaves \<^verbatim>\<open>analyze\<close> is therefore not the \<open>SemanticError\<close> of line 4.
\<close>

theorem unknown_type_error_has_no_line:
  "analyze (Some unknown_annotation_program) new_SemanticAnalyzer
     = (Inl (runtime_error ''Unknown type: float''), new_SemanticAnalyzer)
   \<and> runtime_error ''Unknown type: float'' \<noteq> SemanticError ''Unknown type: float'' 4"
  by (simp add: analyze_def unknown_annotation_program_def new_SemanticAnalyzer_def
      enter_scope_def visit_let_decl_def declared_type_def parse_type_def unknown_type_def)

section \<open>Declarations without an initializer\<close>

text \<open>
  Claim C7, as the code has it. Take a declaration without an initializer whose name
  is not yet bound in the current scope. If its annotation is absent or a spelling of
  the catalog, a \<open>var\<close> and a \<open>const\<close> fail with the missing-initializer error at the
  declaration's line, and a \<open>let\<close> succeeds and puts its symbol, with
  \<open>is_initialized = false\<close>, into the current scope. If its annotation is a spelling
  outside the catalog, all three fail with the unknown-type error instead: the
  annotation is resolved before the initializer is looked at.
\<close>

theorem declaration_without_initializer:
  assumes "scope_stack s = cur # outer" and "cur (decl_name d) = None"
    and "initializer d = None"
  shows "(type_annotation d = None \<or> (\<exists>t \<in> set type_catalog. type_annotation d = Some t) \<longrightarrow>
            visit_var_decl d s =
              (Inl (SemanticError ''var declaration requires initializer'' (decl_line d)), s)
          \<and> visit_const_decl d s =
              (Inl (SemanticError ''const declaration requires initializer'' (decl_line d)), s)
          \<and> (\<exists>symb. visit_let_decl d s =
                        (Inr (), s\<lparr>scope_stack := (cur(decl_name d \<mapsto> symb)) # outer\<rparr>)
                \<and> name symb = decl_name d \<and> symbol_type symb = Variable
                \<and> is_initialized symb = False \<and> declaration_line symb = decl_line d
                \<and> is_mutable (type_info symb) = False))
       \<and> (\<forall>t. type_annotation d = Some t \<and> t \<notin> set type_catalog \<longrightarrow>
            visit_var_decl d s = (Inl (runtime_error (''Unknown type: '' @ t)), s)
          \<and> visit_const_decl d s = (Inl (runtime_error (''Unknown type: '' @ t)), s)
          \<and> visit_let_decl d s = (Inl (runtime_error (''Unknown type: '' @ t)), s))"
proof (intro conjI impI allI)
  assume "type_annotation d = None \<or> (\<exists>t \<in> set type_catalog. type_annotation d = Some t)"
  then obtain ti where ti: "declared_type (type_annotation d) = Inr ti"
    using declared_type_ok [of "type_annotation d"] by blast
  show "visit_var_decl d s =
      (Inl (SemanticError ''var declaration requires initializer'' (decl_line d)), s)"
    using assms ti by (rule no_initializer_var)
  show "visit_const_decl d s =
      (Inl (SemanticError ''const declaration requires initializer'' (decl_line d)), s)"
    using assms ti by (rule no_initializer_const)
  show "\<exists>symb. visit_let_decl d s =
                  (Inr (), s\<lparr>scope_stack := (cur(decl_name d \<mapsto> symb)) # outer\<rparr>)
          \<and> name symb = decl_name d \<and> symbol_type symb = Variable
          \<and> is_initialized symb = False \<and> declaration_line symb = decl_line d
          \<and> is_mutable (type_info symb) = False"
    by (rule exI [of _ "\<lparr>name = decl_name d, symbol_type = Variable,
            type_info = ti\<lparr>is_mutable := False\<rparr>, is_initialized = False,
            declaration_line = decl_line d\<rparr>"])
       (simp add: no_initializer_let [OF assms ti])
next
  fix t
  assume "type_annotation d = Some t \<and> t \<notin> set type_catalog"
  then have "declared_type (type_annotation d) = Inl (runtime_error (''Unknown type: '' @ t))"
    by (simp add: declared_type_unknown unknown_type_def)
  from unknown_annotation [OF assms(1,2) this]
  show "visit_var_decl d s = (Inl (runtime_error (''Unknown type: '' @ t)), s)"
    and "visit_const_decl d s = (Inl (runtime_error (''Unknown type: '' @ t)), s)"
    and "visit_let_decl d s = (Inl (runtime_error (''Unknown type: '' @ t)), s)"
    by simp_all
qed

text \<open>\<^verbatim>\<open>const z: bool;\<close> at line 2 lacks its initializer, \<^verbatim>\<open>let z: bool;\<close> is
  accepted, and \<^verbatim>\<open>const y: i7;\<close> at line 3 has an unknown type.\<close>

theorem declaration_without_initializer_witness:
  "visit_const_decl
      \<lparr>decl_name = ''z'', type_annotation = Some ''bool'', initializer = None, decl_line = 2\<rparr>
      new_SemanticAnalyzer
     = (Inl (SemanticError ''const declaration requires initializer'' 2), new_SemanticAnalyzer)
   \<and> fst (visit_let_decl
      \<lparr>decl_name = ''z'', type_annotation = Some ''bool'', initializer = None, decl_line = 2\<rparr>
      new_SemanticAnalyzer) = Inr ()
   \<and> visit_const_decl
      \<lparr>decl_name = ''y'', type_annotation = Some ''i7'', initializer = None, decl_line = 3\<rparr>
      new_SemanticAnalyzer
     = (Inl (runtime_error ''Unknown type: i7''), new_SemanticAnalyzer)"
proof -
  let ?z = "\<lparr>decl_name = ''z'', type_annotation = Some ''bool'', initializer = None,
              decl_line = 2\<rparr>"
  let ?y = "\<lparr>decl_name = ''y'', type_annotation = Some ''i7'', initializer = None,
              decl_line = 3\<rparr>"
  have st: "scope_stack new_SemanticAnalyzer = Map.empty # []"
    by (simp add: new_SemanticAnalyzer_def enter_scope_def)
  have known: "type_annotation ?z = None \<or> (\<exists>t \<in> set type_catalog. type_annotation ?z = Some t)"
    by (simp add: type_catalog_def)
  have unknown: "type_annotation ?y = Some ''i7'' \<and> ''i7'' \<notin> set type_catalog"
    by (simp add: type_catalog_def)
  from declaration_without_initializer [OF st, of ?z] known
  have "visit_const_decl ?z new_SemanticAnalyzer
      = (Inl (SemanticError ''const declaration requires initializer'' 2), new_SemanticAnalyzer)
    \<and> fst (visit_let_decl ?z new_SemanticAnalyzer) = Inr ()"
    by auto
  moreover
  from declaration_without_initializer [OF st, of ?y] unknown
  have "visit_const_decl ?y new_SemanticAnalyzer
      = (Inl (runtime_error ''Unknown type: i7''), new_SemanticAnalyzer)"
    by auto
  ultimately show ?thesis by simp
qed

text \<open>\<^verbatim>\<open>var y: i7;\<close> at line 3: the error is the one for the unknown type, not the
  one for the missing initializer.\<close>

theorem var_with_unknown_annotation:
  "fst (analyze (Some (VarDeclarationNode
       \<lparr>decl_name = ''y'', type_annotation = Some ''i7'', initializer = None,
        decl_line = 3\<rparr>)) new_SemanticAnalyzer)
     = Inl (runtime_error ''Unknown type: i7'')
   \<and> fst (analyze (Some (VarDeclarationNode
       \<lparr>decl_name = ''y'', type_annotation = Some ''i7'', initializer = None,
        decl_line = 3\<rparr>)) new_SemanticAnalyzer)
     \<noteq> Inl (SemanticError ''var declaration requires initializer'' 3)"
  by (simp add: analyze_def new_SemanticAnalyzer_def enter_scope_def visit_var_decl_def
      declared_type_def parse_type_def unknown_type_def)

section \<open>Duplicates and shadowing\<close>

text \<open>
  Claim C6. Of two declarations of one name, the second should fail as a duplicate at
  its own line when both are in one scope, and succeed, shadowing the first, when it
  is in an inner scope. On well-formed pairs the code does neither. In
  \<^verbatim>\<open>fn f() -> i32 { let x: i32; fn g() -> i32 { let x: i32 = 2; } }\<close> the inner
  \<open>x\<close> of line 4 is not accepted: \<^verbatim>\<open>visit_expression\<close> answers \<open>Unknown\<close> for its
  initializer and the declaration fails with a type mismatch. In
  \<^verbatim>\<open>fn f() -> i32 { let x: i32 = 1; let x: i32 = 2; }\<close> the analysis stops in the same
  way at the first \<open>x\<close>, line 2, and the duplicate at line 3 is never reported.
\<close>

theorem shadowing_let_type_mismatch:
  "fst (analyze (Some nested_let_program) new_SemanticAnalyzer) =
     Inl (SemanticError ''Type mismatch in let declaration'' 4)
   \<and> fst (analyze (Some same_scope_let_program) new_SemanticAnalyzer) =
     Inl (SemanticError ''Type mismatch in let declaration'' 2)"
  by (simp add: analyze_def nested_let_program_def same_scope_let_program_def
      new_SemanticAnalyzer_def enter_scope_def find_symbol_def parse_type_def
      declare_in_back_def visit_let_decl_def declared_type_def visit_expression_def
      types_compatible_def visit_function.simps)

section \<open>A variable named like an outer function\<close>

text \<open>
  Claim C10. A variable declared with the name of a function that is bound in an outer
  scope only should be accepted and shadow the function. In
  \<^verbatim>\<open>fn f() -> i32 { var f: i32 = 1; }\<close> the name \<open>f\<close> is free in the scope of the
  body, so the duplicate check of \<^verbatim>\<open>visit_var_decl\<close> lets the declaration pass, but
  the declaration is still not accepted: \<^verbatim>\<open>visit_expression\<close> answers \<open>Unknown\<close>
  for the initializer and the declaration fails with a type mismatch at line 2.
\<close>

theorem variable_named_like_function_type_mismatch:
  "fst (analyze (Some var_named_like_function_program) new_SemanticAnalyzer) =
     Inl (SemanticError ''Type mismatch in var declaration'' 2)"
  by (simp add: analyze_def var_named_like_function_program_def new_SemanticAnalyzer_def
      enter_scope_def find_symbol_def parse_type_def declare_in_back_def
      visit_var_decl_def declared_type_def visit_expression_def types_compatible_def
      visit_function.simps)

end
